theory Spec2Isabelle
  imports Complex_Main
begin

section \<open>Constants and configuration\<close>

text \<open>
  The two source files are two variants of one live sensor dashboard:
  \<^verbatim>\<open>web_dashboard_1.py\<close> (single page) and \<^verbatim>\<open>web_dashboard_2.py\<close> (multi-page).
  Definitions that exist in both files with the same body are embedded once; where the
  bodies differ the definitions carry the suffix of the file they come from.
\<close>

definition MAX_BUFFER_SIZE :: nat where
  "MAX_BUFFER_SIZE = 10000"

definition DEFAULT_DISPLAY_POINTS :: int where
  "DEFAULT_DISPLAY_POINTS = 50"

definition DEFAULT_DISPLAY_POINTS_DASH :: int where
  "DEFAULT_DISPLAY_POINTS_DASH = 100"

definition DEFAULT_DISPLAY_POINTS_DETAIL :: int where
  "DEFAULT_DISPLAY_POINTS_DETAIL = 500"

definition ID_INTERVAL :: string where
  "ID_INTERVAL = ''interval-component''"

definition ID_DETAIL_SETTINGS_STORE :: string where
  "ID_DETAIL_SETTINGS_STORE = ''detail-settings-store''"

section \<open>Python values the code relies on\<close>

text \<open>Exceptions that the modelled code paths can raise.\<close>

datatype error = AttributeError | KeyError string | IndexError | ValueError

text \<open>
  \<^verbatim>\<open>collections.deque(maxlen=n).append(x)\<close>: the item is added on the right and, when the
  length then exceeds \<open>maxlen\<close>, one item is discarded on the left.
\<close>

definition deque_append :: "nat \<Rightarrow> 'a list \<Rightarrow> 'a \<Rightarrow> 'a list" where
  "deque_append maxlen d v = (let d' = d @ [v] in if maxlen < length d' then tl d' else d')"

text \<open>
  \<^verbatim>\<open>list(islice(it, start, stop))\<close> for non-negative \<open>start\<close> and \<open>stop\<close>: the items at
  positions \<open>start, \<dots>, stop - 1\<close>, as far as they exist; nothing when \<open>stop \<le> start\<close>.
\<close>

definition islice :: "'a list \<Rightarrow> nat \<Rightarrow> nat \<Rightarrow> 'a list" where
  "islice it start stop = take (stop - start) (drop start it)"

text \<open>Dictionaries with string keys, in insertion order: \<^verbatim>\<open>k in d\<close> and \<^verbatim>\<open>d[k]\<close>.\<close>

type_synonym 'v dict = "(string \<times> 'v) list"

definition contains :: "string \<Rightarrow> 'v dict \<Rightarrow> bool" where
  "contains k d = (case map_of d k of None \<Rightarrow> False | Some v \<Rightarrow> True)"

definition getitem :: "'v dict \<Rightarrow> string \<Rightarrow> error + 'v" where
  "getitem d k = (case map_of d k of None \<Rightarrow> Inl (KeyError k) | Some v \<Rightarrow> Inr v)"

text \<open>The list display \<^verbatim>\<open>[d[k0], d[k1]]\<close>, evaluated left to right.\<close>

definition range_pair :: "'v dict \<Rightarrow> string \<Rightarrow> string \<Rightarrow> error + ('v \<times> 'v)" where
  "range_pair d k0 k1 =
     (case getitem d k0 of
        Inl e \<Rightarrow> Inl e
      | Inr lo \<Rightarrow> (case getitem d k1 of Inl e \<Rightarrow> Inl e | Inr hi \<Rightarrow> Inr (lo, hi)))"

text \<open>Truth value of an optional dictionary: \<^verbatim>\<open>None\<close> and \<^verbatim>\<open>{}\<close> are false.\<close>

definition truthy :: "'v dict option \<Rightarrow> bool" where
  "truthy r = (case r of None \<Rightarrow> False | Some d \<Rightarrow> d \<noteq> [])"

text \<open>Decimal rendering of an integer, as an f-string does for \<^verbatim>\<open>{i}\<close>.\<close>

definition digit_char :: "nat \<Rightarrow> char" where
  "digit_char d = ''0123456789'' ! d"

fun str_nat :: "nat \<Rightarrow> string" where
  "str_nat n = (if n < 10 then [digit_char n] else str_nat (n div 10) @ [digit_char (n mod 10)])"

declare str_nat.simps [simp del]

definition str_int :: "int \<Rightarrow> string" where
  "str_int i = (if i < 0 then CHR ''-'' # str_nat (nat (- i)) else str_nat (nat i))"

text \<open>\<^verbatim>\<open>dash.no_update\<close> as a callback output, or a real value.\<close>

datatype 'a callback_output = no_update | Update 'a

section \<open>Data buffers\<close>

text \<open>
  The module-level state: \<^verbatim>\<open>time_data\<close> and the dictionary \<^verbatim>\<open>sensor_data\<close> of the four
  channel deques, every deque created with \<^verbatim>\<open>maxlen=MAX_BUFFER_SIZE\<close>.
\<close>

record 't buffers =
  time_data :: "'t list"
  sensor_data :: "real list dict"

definition initial_buffers :: "'t buffers" where
  "initial_buffers =
     \<lparr>time_data = [],
      sensor_data = [(''s1'', []), (''s2'', []), (''s3'', []), (''s4'', [])]\<rparr>"

text \<open>\<^verbatim>\<open>last_val = buffer[-1] if buffer else 50.0\<close>\<close>

definition last_val :: "real list \<Rightarrow> real" where
  "last_val buffer = (if buffer \<noteq> [] then last buffer else 50.0)"

text \<open>
  \<^verbatim>\<open>new_val = last_val + random.uniform(-2.5, 2.5) - (last_val - 50) * 0.1\<close>, with the
  draw \<open>u\<close> passed in. Python floats are modelled as reals.
\<close>

definition new_val :: "real \<Rightarrow> real \<Rightarrow> real" where
  "new_val lv u = lv + u - (lv - 50) * 0.1"

text \<open>
  \<^verbatim>\<open>generate_new_data\<close> (the same body in both files). The clock reading \<open>now\<close> and the
  random draws are inputs: \<open>uniform name\<close> is the value that \<^verbatim>\<open>random.uniform(-2.5, 2.5)\<close>
  returns in the loop iteration of channel \<open>name\<close>.
\<close>

definition generate_new_data :: "'t \<Rightarrow> (string \<Rightarrow> real) \<Rightarrow> 't buffers \<Rightarrow> 't buffers" where
  "generate_new_data now uniform s =
     s\<lparr>time_data := deque_append MAX_BUFFER_SIZE (time_data s) now,
       sensor_data :=
         map (\<lambda>(name, buffer).
                (name, deque_append MAX_BUFFER_SIZE buffer
                         (max 0 (min 120 (new_val (last_val buffer) (uniform name))))))
             (sensor_data s)\<rparr>"

section \<open>Settings, traces and figures\<close>

text \<open>
  The settings dictionary held by the settings store. A field is \<open>None\<close> when its key
  is absent. The keys are \<^verbatim>\<open>display_points\<close>, \<^verbatim>\<open>line_shape\<close>, \<^verbatim>\<open>show_markers\<close>,
  \<^verbatim>\<open>marker_size\<close> in the single-page file and \<^verbatim>\<open>points\<close>, \<^verbatim>\<open>shape\<close>, \<^verbatim>\<open>markers\<close>,
  \<^verbatim>\<open>size\<close> in the multi-page file.
\<close>

record settings =
  st_points :: "int option"
  st_shape :: "string option"
  st_markers :: "string option"
  st_size :: "int option"

text \<open>\<^verbatim>\<open>d.get(key, default)\<close> on such a field.\<close>

definition get_default :: "'a option \<Rightarrow> 'a \<Rightarrow> 'a" where
  "get_default field dflt = (case field of None \<Rightarrow> dflt | Some v \<Rightarrow> v)"

text \<open>
  A \<^verbatim>\<open>go.Scatter\<close> trace: the data, the mode, the marker dictionary (\<open>None\<close> for
  \<^verbatim>\<open>{}\<close>, otherwise the marker size) and the line shape.
\<close>

record 't scatter =
  trace_x :: "'t list"
  trace_y :: "real list"
  trace_mode :: string
  trace_marker :: "int option"
  trace_line_shape :: string

text \<open>
  A \<^verbatim>\<open>go.Figure\<close>, reduced to what the callbacks vary: title, height, axis titles, traces
  and the two axis ranges. The constant styling (template, colours, margins, grid) is
  left out. The type \<open>'v\<close> is that of the axis bounds reported by the chart surface.
\<close>

record ('t, 'v) figure =
  fig_title :: string
  fig_height :: "int option"
  fig_axis_titles :: "(string \<times> string) option"
  fig_data :: "'t scatter list"
  xaxis_range :: "('v \<times> 'v) option"
  yaxis_range :: "('v \<times> 'v) option"

text \<open>\<^verbatim>\<open>create_base_figure(title)\<close> of the single-page file.\<close>

definition create_base_figure_1 :: "string \<Rightarrow> ('t, 'v) figure" where
  "create_base_figure_1 title =
     \<lparr>fig_title = title, fig_height = Some 360, fig_axis_titles = Some (''Time'', ''Value''),
      fig_data = [], xaxis_range = None, yaxis_range = None\<rparr>"

text \<open>\<^verbatim>\<open>create_base_figure(title_text="", height=360)\<close> of the multi-page file.\<close>

definition create_base_figure_2 :: "string \<Rightarrow> int option \<Rightarrow> ('t, 'v) figure" where
  "create_base_figure_2 title_text height =
     \<lparr>fig_title = title_text, fig_height = height, fig_axis_titles = None,
      fig_data = [], xaxis_range = None, yaxis_range = None\<rparr>"

text \<open>\<^verbatim>\<open>fig.add_trace(t)\<close>\<close>

definition add_trace :: "'t scatter \<Rightarrow> ('t, 'v) figure \<Rightarrow> ('t, 'v) figure" where
  "add_trace t fig = fig\<lparr>fig_data := fig_data fig @ [t]\<rparr>"

text \<open>The window start \<^verbatim>\<open>max(0, num_points - display_points)\<close> of both graph updates.\<close>

definition start_index :: "int \<Rightarrow> int \<Rightarrow> int" where
  "start_index num_points display_points = max 0 (num_points - display_points)"

definition sensor_name :: "int \<Rightarrow> string" where
  "sensor_name i = ''s'' @ str_int i"

text \<open>
  A loop \<^verbatim>\<open>for a in as: outputs.append(f(a))\<close> whose body may raise: the first
  exception ends the loop.
\<close>

fun collect :: "('a \<Rightarrow> error + 'b) \<Rightarrow> 'a list \<Rightarrow> error + 'b list" where
  "collect f [] = Inr []"
| "collect f (a # as) =
     (case f a of
        Inl e \<Rightarrow> Inl e
      | Inr b \<Rightarrow> (case collect f as of Inl e \<Rightarrow> Inl e | Inr bs \<Rightarrow> Inr (b # bs)))"

section \<open>Graph update of the single-page file\<close>

text \<open>
  Lines 533 to 537 of \<^verbatim>\<open>update_graphs\<close>: while paused, the range captured from the
  chart's zoom or pan is written back, each axis under its own test.
\<close>

definition apply_relayout_1 ::
  "bool \<Rightarrow> 'v dict option \<Rightarrow> ('t, 'v) figure \<Rightarrow> error + ('t, 'v) figure" where
  "apply_relayout_1 is_running relayout_data fig =
     (if \<not> is_running \<and> truthy relayout_data then
        (case relayout_data of
           None \<Rightarrow> Inr fig
         | Some d \<Rightarrow>
             (case (if contains ''xaxis.range[0]'' d \<and> contains ''xaxis.range[1]'' d
                    then (case range_pair d ''xaxis.range[0]'' ''xaxis.range[1]'' of
                            Inl e \<Rightarrow> Inl e
                          | Inr r \<Rightarrow> Inr (fig\<lparr>xaxis_range := Some r\<rparr>))
                    else Inr fig) of
                Inl e \<Rightarrow> Inl e
              | Inr fig' \<Rightarrow>
                  (if contains ''yaxis.range[0]'' d \<and> contains ''yaxis.range[1]'' d
                   then (case range_pair d ''yaxis.range[0]'' ''yaxis.range[1]'' of
                           Inl e \<Rightarrow> Inl e
                         | Inr r \<Rightarrow> Inr (fig'\<lparr>yaxis_range := Some r\<rparr>))
                   else Inr fig')))
      else Inr fig)"

text \<open>The body of the loop over the four charts in \<^verbatim>\<open>update_graphs\<close>.\<close>

definition sensor_figure_1 ::
  "bool \<Rightarrow> 't list \<Rightarrow> real list dict \<Rightarrow> string \<Rightarrow> int option \<Rightarrow> string \<Rightarrow>
   int \<times> 'v dict option \<Rightarrow> error + ('t, 'v) figure" where
  "sensor_figure_1 is_running x_slice sensor_slices mode marker_dict line_shape ir =
     (case ir of (i, relayout_data) \<Rightarrow>
        (let fig = create_base_figure_1 (''Sensor '' @ str_int i) in
         (case (if x_slice \<noteq> [] then
                  (case getitem sensor_slices (sensor_name i) of
                     Inl e \<Rightarrow> Inl e
                   | Inr y_data \<Rightarrow>
                       Inr (add_trace \<lparr>trace_x = x_slice, trace_y = y_data, trace_mode = mode,
                                       trace_marker = marker_dict,
                                       trace_line_shape = line_shape\<rparr> fig))
                else Inr fig) of
            Inl e \<Rightarrow> Inl e
          | Inr fig' \<Rightarrow> apply_relayout_1 is_running relayout_data fig')))"

text \<open>
  \<^verbatim>\<open>update_graphs(n, is_running, settings, relayout1, \<dots>, relayout4)\<close>. The tick counter
  \<open>n\<close> is not read by the body and is left out; \<open>now\<close> and \<open>uniform\<close> are the clock and
  the random draws that \<^verbatim>\<open>generate_new_data\<close> would see. The result pairs what the call
  returns or raises with the buffers it leaves behind. A \<open>settings\<close> of \<open>None\<close> has no
  \<^verbatim>\<open>get\<close>.
\<close>

definition update_graphs ::
  "'t \<Rightarrow> (string \<Rightarrow> real) \<Rightarrow> bool \<Rightarrow> settings option \<Rightarrow>
   'v dict option \<Rightarrow> 'v dict option \<Rightarrow> 'v dict option \<Rightarrow> 'v dict option \<Rightarrow>
   't buffers \<Rightarrow> (error + ('t, 'v) figure list) \<times> 't buffers" where
  "update_graphs now uniform is_running settings relayout1 relayout2 relayout3 relayout4 s =
     (let s' = (if is_running then generate_new_data now uniform s else s) in
      ((case settings of
          None \<Rightarrow> Inl AttributeError
        | Some st \<Rightarrow>
            (let display_points = get_default (st_points st) DEFAULT_DISPLAY_POINTS;
                 line_shape = get_default (st_shape st) ''linear'';
                 show_markers = (st_markers st = Some ''on'');
                 marker_size = get_default (st_size st) 6;
                 num_points = int (length (time_data s'));
                 start = start_index num_points display_points;
                 x_slice = islice (time_data s') (nat start) (nat num_points);
                 sensor_slices =
                   map (\<lambda>(name, buf). (name, islice buf (nat start) (nat num_points)))
                       (sensor_data s');
                 mode = (if show_markers then ''lines+markers'' else ''lines'');
                 marker_dict = (if show_markers then Some marker_size else None)
             in collect (sensor_figure_1 is_running x_slice sensor_slices mode marker_dict
                           line_shape)
                  [(1, relayout1), (2, relayout2), (3, relayout3), (4, relayout4)])),
       s'))"

section \<open>Graph updates of the multi-page file\<close>

text \<open>\<^verbatim>\<open>settings = settings or {}\<close>: a missing settings dictionary is read as empty.\<close>

definition or_empty :: "settings option \<Rightarrow> settings" where
  "or_empty settings =
     (case settings of
        None \<Rightarrow> \<lparr>st_points = None, st_shape = None, st_markers = None, st_size = None\<rparr>
      | Some st \<Rightarrow> st)"

text \<open>
  Lines 334 to 337 of \<^verbatim>\<open>update_dashboard_graphs\<close>: one test, on the two lower bounds,
  guards the write of both axis ranges.
\<close>

definition apply_relayout_2 ::
  "bool \<Rightarrow> 'v dict option \<Rightarrow> ('t, 'v) figure \<Rightarrow> error + ('t, 'v) figure" where
  "apply_relayout_2 is_running relayout fig =
     (if \<not> is_running \<and> truthy relayout then
        (case relayout of
           None \<Rightarrow> Inr fig
         | Some d \<Rightarrow>
             (if contains ''xaxis.range[0]'' d \<and> contains ''yaxis.range[0]'' d then
                (case range_pair d ''xaxis.range[0]'' ''xaxis.range[1]'' of
                   Inl e \<Rightarrow> Inl e
                 | Inr xr \<Rightarrow>
                     (case range_pair d ''yaxis.range[0]'' ''yaxis.range[1]'' of
                        Inl e \<Rightarrow> Inl e
                      | Inr yr \<Rightarrow> Inr (fig\<lparr>xaxis_range := Some xr, yaxis_range := Some yr\<rparr>)))
              else Inr fig))
      else Inr fig)"

text \<open>The body of the loop over the four charts in \<^verbatim>\<open>update_dashboard_graphs\<close>.\<close>

definition sensor_figure_2 ::
  "bool \<Rightarrow> 't list \<Rightarrow> real list dict \<Rightarrow> nat \<Rightarrow> nat \<Rightarrow> string \<Rightarrow> int option \<Rightarrow> string \<Rightarrow>
   int \<times> 'v dict option \<Rightarrow> error + ('t, 'v) figure" where
  "sensor_figure_2 is_running x_slice sensors start_idx num_total mode marker_dict shape ir =
     (case ir of (i, relayout) \<Rightarrow>
        (let fig = create_base_figure_2 (''Sensor '' @ str_int i) (Some 360) in
         (case getitem sensors (sensor_name i) of
            Inl e \<Rightarrow> Inl e
          | Inr buffer \<Rightarrow>
              (let y_slice = islice buffer start_idx num_total;
                   fig' = (if x_slice \<noteq> [] then
                             add_trace \<lparr>trace_x = x_slice, trace_y = y_slice, trace_mode = mode,
                                        trace_marker = marker_dict,
                                        trace_line_shape = shape\<rparr> fig
                           else fig)
               in apply_relayout_2 is_running relayout fig'))))"

text \<open>
  \<^verbatim>\<open>update_dashboard_graphs(n, is_running, settings, relayout1, \<dots>, relayout4)\<close>, with
  the same conventions as \<open>update_graphs\<close>.
\<close>

definition update_dashboard_graphs ::
  "'t \<Rightarrow> (string \<Rightarrow> real) \<Rightarrow> bool \<Rightarrow> settings option \<Rightarrow>
   'v dict option \<Rightarrow> 'v dict option \<Rightarrow> 'v dict option \<Rightarrow> 'v dict option \<Rightarrow>
   't buffers \<Rightarrow> (error + ('t, 'v) figure list) \<times> 't buffers" where
  "update_dashboard_graphs now uniform is_running settings relayout1 relayout2 relayout3
       relayout4 s =
     (let s' = (if is_running then generate_new_data now uniform s else s);
          st = or_empty settings;
          points = get_default (st_points st) DEFAULT_DISPLAY_POINTS_DASH;
          shape = get_default (st_shape st) ''linear'';
          show_markers = (st_markers st = Some ''on'');
          size_v = get_default (st_size st) 6;
          num_total = int (length (time_data s'));
          start_idx = start_index num_total points;
          x_slice = islice (time_data s') (nat start_idx) (nat num_total);
          mode = (if show_markers then ''lines+markers'' else ''lines'');
          marker_dict = (if show_markers then Some size_v else None)
      in (collect (sensor_figure_2 is_running x_slice (sensor_data s') (nat start_idx)
                     (nat num_total) mode marker_dict shape)
            [(1, relayout1), (2, relayout2), (3, relayout3), (4, relayout4)],
          s'))"

text \<open>\<^verbatim>\<open>d[-1]\<close> on a deque.\<close>

definition last_item :: "'a list \<Rightarrow> error + 'a" where
  "last_item d = (if d = [] then Inl IndexError else Inr (last d))"

text \<open>
  The \<^verbatim>\<open>extendData\<close> value \<^verbatim>\<open>(dict(x=[[new_time]], y=[[new_value]]), [0], points_to_keep)\<close>:
  the points to append per trace, the trace indices and the number of points to keep.
\<close>

record 't extend_data =
  ext_x :: "'t list list"
  ext_y :: "real list list"
  ext_traces :: "nat list"
  ext_max_points :: int

text \<open>
  \<^verbatim>\<open>update_detail_graph_live(n, settings, pathname, is_running)\<close>. The first argument
  \<open>parse_index\<close> stands for \<^verbatim>\<open>int(pathname.split('-')[-1])\<close> of the Python library, with
  \<open>None\<close> where it raises one of the three exceptions that the \<^verbatim>\<open>try\<close> catches;
  \<open>triggered_id\<close> is \<^verbatim>\<open>dash.ctx.triggered_id\<close>. A \<open>pathname\<close> of \<open>None\<close> has no
  \<^verbatim>\<open>split\<close>. The body never writes the buffers; they are returned as they came in.
\<close>

definition update_detail_graph_live ::
  "(string \<Rightarrow> int option) \<Rightarrow> string option \<Rightarrow> settings option \<Rightarrow> string option \<Rightarrow> bool \<Rightarrow>
   't buffers \<Rightarrow>
   (error + (('t, 'v) figure callback_output \<times> 't extend_data callback_output)) \<times> 't buffers"
  where
  "update_detail_graph_live parse_index triggered_id settings pathname is_running s =
     ((case pathname of
         None \<Rightarrow> Inl AttributeError
       | Some p \<Rightarrow>
           (case parse_index p of
              None \<Rightarrow> Inr (no_update, no_update)
            | Some sensor_index \<Rightarrow>
                (if triggered_id = Some ID_INTERVAL \<and> is_running \<and> time_data s \<noteq> [] then
                   (case last_item (time_data s) of
                      Inl e \<Rightarrow> Inl e
                    | Inr new_time \<Rightarrow>
                   (case getitem (sensor_data s) (sensor_name sensor_index) of
                      Inl e \<Rightarrow> Inl e
                    | Inr buffer \<Rightarrow>
                   (case last_item buffer of
                      Inl e \<Rightarrow> Inl e
                    | Inr new_value \<Rightarrow>
                   (case settings of
                      None \<Rightarrow> Inl AttributeError
                    | Some st \<Rightarrow>
                        Inr (no_update,
                             Update \<lparr>ext_x = [[new_time]], ext_y = [[new_value]],
                                     ext_traces = [0],
                                     ext_max_points =
                                       get_default (st_points st)
                                         DEFAULT_DISPLAY_POINTS_DETAIL\<rparr>)))))
                 else
                   (let st = or_empty settings;
                        points = get_default (st_points st) DEFAULT_DISPLAY_POINTS_DETAIL;
                        shape = get_default (st_shape st) ''spline'';
                        show_markers = (st_markers st = Some ''on'');
                        size_v = get_default (st_size st) 6;
                        num_total = int (length (time_data s));
                        start_idx = start_index num_total points;
                        x_slice = islice (time_data s) (nat start_idx) (nat num_total)
                    in (case getitem (sensor_data s) (sensor_name sensor_index) of
                          Inl e \<Rightarrow> Inl e
                        | Inr buffer \<Rightarrow>
                            (let y_slice = islice buffer (nat start_idx) (nat num_total);
                                 fig = create_base_figure_2 [] None;
                                 mode = (if show_markers then ''lines+markers'' else ''lines'');
                                 marker_dict = (if show_markers then Some size_v else None)
                             in Inr (Update
                                       (if x_slice \<noteq> [] then
                                          add_trace \<lparr>trace_x = x_slice, trace_y = y_slice,
                                                     trace_mode = mode,
                                                     trace_marker = marker_dict,
                                                     trace_line_shape = shape\<rparr> fig
                                        else fig),
                                     no_update))))))),
      s)"

section \<open>Export\<close>

text \<open>A table cell: a timestamp or a channel reading.\<close>

datatype 't cell = Timestamp 't | Reading real

text \<open>A \<^verbatim>\<open>pandas.DataFrame\<close>: the column names (the header) and the rows.\<close>

record 't data_frame =
  df_columns :: "string list"
  df_rows :: "'t cell list list"

text \<open>\<^verbatim>\<open>d[k] = v\<close> and \<^verbatim>\<open>d.update(other)\<close> on a dictionary in insertion order.\<close>

fun dict_set :: "'v dict \<Rightarrow> string \<Rightarrow> 'v \<Rightarrow> 'v dict" where
  "dict_set [] k v = [(k, v)]"
| "dict_set ((k', v') # d) k v = (if k' = k then (k, v) # d else (k', v') # dict_set d k v)"

definition dict_update :: "'v dict \<Rightarrow> 'v dict \<Rightarrow> 'v dict" where
  "dict_update d other = foldl (\<lambda>acc (k, v). dict_set acc k v) d other"

text \<open>
  \<^verbatim>\<open>pd.DataFrame(df_data)\<close> for a dictionary of lists: the keys become the columns in
  insertion order, row \<open>i\<close> holds item \<open>i\<close> of every list, and lists of different
  lengths are rejected with a \<^verbatim>\<open>ValueError\<close>.
\<close>

definition DataFrame :: "'t cell list dict \<Rightarrow> error + 't data_frame" where
  "DataFrame df_data =
     (case df_data of
        [] \<Rightarrow> Inr \<lparr>df_columns = [], df_rows = []\<rparr>
      | (k, c) # rest \<Rightarrow>
          (if list_all (\<lambda>(k', c'). length c' = length c) rest then
             Inr \<lparr>df_columns = map fst df_data,
                  df_rows = map (\<lambda>i. map (\<lambda>(k', c'). c' ! i) df_data) [0..<length c]\<rparr>
           else Inl ValueError))"

text \<open>
  \<^verbatim>\<open>export_data_as_csv(n_clicks)\<close> (the same body in both files). The table is returned
  as it stands before \<^verbatim>\<open>to_csv(index=False)\<close> turns it into text; \<open>strftime\<close> stands
  for the formatting of the clock reading in the file name.
\<close>

definition export_data_as_csv ::
  "('t \<Rightarrow> string) \<Rightarrow> 't \<Rightarrow> 't buffers \<Rightarrow> error + ('t data_frame \<times> string)" where
  "export_data_as_csv strftime now s =
     (let df_data = dict_update [(''timestamp'', map Timestamp (time_data s))]
                      (map (\<lambda>(name, buffer). (name, map Reading buffer)) (sensor_data s))
      in (case DataFrame df_data of
            Inl e \<Rightarrow> Inl e
          | Inr df \<Rightarrow> Inr (df, ''sensor_data_'' @ strftime now @ ''.csv'')))"

section \<open>Histories of callback invocations\<close>

text \<open>
  The arguments of one invocation of a dashboard graph update (\<open>update_graphs\<close> or
  \<open>update_dashboard_graphs\<close>), with the clock reading and the random draws it would see.
\<close>

record ('t, 'v) graph_call =
  call_now :: 't
  call_uniform :: "string \<Rightarrow> real"
  call_is_running :: bool
  call_settings :: "settings option"
  call_relayout1 :: "'v dict option"
  call_relayout2 :: "'v dict option"
  call_relayout3 :: "'v dict option"
  call_relayout4 :: "'v dict option"

text \<open>The arguments of one invocation of \<open>update_detail_graph_live\<close>.\<close>

record detail_call =
  detail_parse_index :: "string \<Rightarrow> int option"
  detail_triggered_id :: "string option"
  detail_settings :: "settings option"
  detail_pathname :: "string option"
  detail_is_running :: bool

text \<open>The buffers after one invocation of the single-page graph update, whatever it returned.\<close>

definition after_update_graphs :: "('t, 'v) graph_call \<Rightarrow> 't buffers \<Rightarrow> 't buffers" where
  "after_update_graphs c s =
     snd (update_graphs (call_now c) (call_uniform c) (call_is_running c) (call_settings c)
            (call_relayout1 c) (call_relayout2 c) (call_relayout3 c) (call_relayout4 c) s)"

text \<open>The buffers of the single-page program after a sequence of ticks, from start-up.\<close>

definition history_1 :: "('t, 'v) graph_call list \<Rightarrow> 't buffers" where
  "history_1 cs = foldl (\<lambda>s c. after_update_graphs c s) initial_buffers cs"

text \<open>
  The multi-page program has two callbacks on the tick: the dashboard's and the detail
  page's. Which of them run on a tick is decided by the page that is shown.
\<close>

datatype ('t, 'v) call_2 = Dashboard "('t, 'v) graph_call" | Detail detail_call

fun after_call_2 :: "('t, 'v) call_2 \<Rightarrow> 't buffers \<Rightarrow> 't buffers" where
  "after_call_2 (Dashboard c) s =
     snd (update_dashboard_graphs (call_now c) (call_uniform c) (call_is_running c)
            (call_settings c) (call_relayout1 c) (call_relayout2 c) (call_relayout3 c)
            (call_relayout4 c) s)"
| "after_call_2 (Detail c) s =
     snd (update_detail_graph_live (detail_parse_index c) (detail_triggered_id c)
            (detail_settings c) (detail_pathname c) (detail_is_running c) s
          :: (error + (('t, 'v) figure callback_output \<times> 't extend_data callback_output))
               \<times> 't buffers)"

definition history_2 :: "('t, 'v) call_2 list \<Rightarrow> 't buffers" where
  "history_2 cs = foldl (\<lambda>s c. after_call_2 c s) initial_buffers cs"

text \<open>
  The four channels are present under their names and each is as long as the shared
  timestamp buffer.
\<close>

definition channels_parallel :: "'t buffers \<Rightarrow> bool" where
  "channels_parallel s =
     (map (\<lambda>(name, buffer). (name, length buffer)) (sensor_data s)
        = map (\<lambda>name. (name, length (time_data s))) [''s1'', ''s2'', ''s3'', ''s4''])"

section \<open>The ring buffers\<close>

lemma deque_append_length:
  "length (deque_append m d v) = (if m < Suc (length d) then length d else Suc (length d))"
  by (simp add: deque_append_def Let_def)

lemma deque_append_full:
  "length d = m \<Longrightarrow> 0 < m \<Longrightarrow> deque_append m d v = tl d @ [v]"
  by (cases d) (simp_all add: deque_append_def Let_def)

lemma deque_appends_from_empty:
  "foldl (deque_append m) [] vs = drop (length vs - m) vs"
proof (induction vs rule: rev_induct)
  case Nil
  show ?case by simp
next
  case (snoc v vs)
  let ?d = "drop (length vs - m) vs"
  show ?case
  proof (cases "length vs < m")
    case True
    with snoc show ?thesis by (simp add: deque_append_def Let_def)
  next
    case False
    then have len: "length ?d = m" by simp
    have k: "Suc (length vs) - m = Suc (length vs - m)" using False by simp
    have "foldl (deque_append m) [] (vs @ [v]) = deque_append m ?d v"
      using snoc by simp
    also have "\<dots> = tl (?d @ [v])"
      using len by (simp add: deque_append_def Let_def)
    also have "?d @ [v] = drop (length vs - m) (vs @ [v])"
      by simp
    also have "tl \<dots> = drop (Suc (length vs - m)) (vs @ [v])"
      by (simp only: drop_Suc tl_drop)
    finally show ?thesis using k by simp
  qed
qed

text \<open>
  Claim C3. The buffers have capacity 10000. Appending any sequence \<open>vs\<close> of \<open>N\<close> items
  to an empty buffer leaves \<open>min N C\<close> items, namely the last \<open>C\<close> items of \<open>vs\<close> in
  the order in which they were appended; and appending to a buffer that holds exactly
  \<open>C\<close> items drops its oldest item and keeps the length at \<open>C\<close>.
\<close>

theorem ring_buffer_capacity:
  "MAX_BUFFER_SIZE = 10000 \<and>
   foldl (deque_append MAX_BUFFER_SIZE) [] vs = drop (length vs - MAX_BUFFER_SIZE) vs \<and>
   length (foldl (deque_append MAX_BUFFER_SIZE) [] vs) = min (length vs) MAX_BUFFER_SIZE \<and>
   (length d = MAX_BUFFER_SIZE \<longrightarrow>
      deque_append MAX_BUFFER_SIZE d v = tl d @ [v] \<and>
      length (deque_append MAX_BUFFER_SIZE d v) = MAX_BUFFER_SIZE)"
proof -
  have pos: "0 < MAX_BUFFER_SIZE"
    by (simp add: MAX_BUFFER_SIZE_def)
  have "length d = MAX_BUFFER_SIZE \<longrightarrow>
          deque_append MAX_BUFFER_SIZE d v = tl d @ [v] \<and>
          length (deque_append MAX_BUFFER_SIZE d v) = MAX_BUFFER_SIZE"
    using pos by (simp add: deque_append_full deque_append_length)
  moreover have "length (foldl (deque_append MAX_BUFFER_SIZE) [] vs)
                   = min (length vs) MAX_BUFFER_SIZE"
    by (simp add: deque_appends_from_empty min_def)
  moreover have "MAX_BUFFER_SIZE = 10000"
    by (simp add: MAX_BUFFER_SIZE_def)
  ultimately show ?thesis
    using deque_appends_from_empty [of MAX_BUFFER_SIZE vs] by blast
qed

theorem ring_buffer_capacity_witness:
  "length (replicate MAX_BUFFER_SIZE (0::nat)) = MAX_BUFFER_SIZE \<and>
   deque_append MAX_BUFFER_SIZE (replicate MAX_BUFFER_SIZE (0::nat)) 7
     = tl (replicate MAX_BUFFER_SIZE 0) @ [7] \<and>
   length (deque_append MAX_BUFFER_SIZE (replicate MAX_BUFFER_SIZE (0::nat)) 7)
     = MAX_BUFFER_SIZE"
proof -
  have h: "length (replicate MAX_BUFFER_SIZE (0::nat)) = MAX_BUFFER_SIZE"
    by (simp only: length_replicate)
  show ?thesis
    using h ring_buffer_capacity [of "[]" "replicate MAX_BUFFER_SIZE (0::nat)" 7]
    by blast
qed

lemma deque_append_last:
  "0 < m \<Longrightarrow> last (deque_append m d v) = v"
  by (cases d) (simp_all add: deque_append_def Let_def last_tl)

lemma deque_append_not_empty:
  "0 < m \<Longrightarrow> deque_append m d v \<noteq> []"
  by (cases d) (simp_all add: deque_append_def Let_def)

section \<open>The signal generator\<close>

lemma generated_last:
  "map (\<lambda>(name, buffer). last buffer) (sensor_data (generate_new_data now uniform s))
     = map (\<lambda>(name, buffer). max 0 (min 120 (new_val (last_val buffer) (uniform name))))
         (sensor_data s)"
  by (simp add: generate_new_data_def deque_append_last MAX_BUFFER_SIZE_def split_def comp_def)

text \<open>
  Claim C9. The new value is \<open>lv + u - 0.1 * (lv - 50)\<close>, where \<open>lv\<close> is the last item of
  the channel buffer, or 50 for an empty buffer; the value that \<open>generate_new_data\<close>
  appends to each channel is this new value clamped by \<open>max 0 (min 120 _)\<close>; every
  appended value lies between 0 and 120, in particular when \<open>lv\<close> lies in that interval
  and the draw \<open>u\<close> lies between -2.5 and 2.5.
\<close>

theorem generator_bounds:
  "new_val lv u = lv + u - 0.1 * (lv - 50) \<and>
   last_val [] = 50 \<and>
   last_val (buffer @ [lv]) = lv \<and>
   map (\<lambda>(name, buffer). last buffer) (sensor_data (generate_new_data now uniform s))
     = map (\<lambda>(name, buffer). max 0 (min 120 (new_val (last_val buffer) (uniform name))))
         (sensor_data s) \<and>
   list_all (\<lambda>(name, buffer). 0 \<le> last buffer \<and> last buffer \<le> 120)
     (sensor_data (generate_new_data now uniform s)) \<and>
   (0 \<le> lv \<and> lv \<le> 120 \<and> - 2.5 \<le> u \<and> u \<le> 2.5 \<longrightarrow>
      0 \<le> max 0 (min 120 (new_val lv u)) \<and> max 0 (min 120 (new_val lv u)) \<le> 120)"
proof -
  have "list_all (\<lambda>(name, buffer). 0 \<le> last buffer \<and> last buffer \<le> 120)
          (sensor_data (generate_new_data now uniform s))"
    by (simp add: generate_new_data_def deque_append_last MAX_BUFFER_SIZE_def split_def
        list_all_iff)
  then show ?thesis
    using generated_last [of now uniform s]
    by (simp add: new_val_def last_val_def)
qed

theorem generator_bounds_witness:
  "(0::real) \<le> 118 \<and> (118::real) \<le> 120 \<and> - 2.5 \<le> (2.5::real) \<and> (2.5::real) \<le> 2.5 \<and>
   new_val 118 2.5 = 113.7 \<and>
   0 \<le> max 0 (min 120 (new_val 118 2.5)) \<and> max 0 (min 120 (new_val 118 2.5)) \<le> 120"
  using generator_bounds [where lv = 118 and u = "2.5" and buffer = "[]" and now = "0::nat"
      and uniform = "\<lambda>n. 0" and s = initial_buffers]
  by (simp add: new_val_def)

section \<open>The visible window\<close>

lemma drop_as_nths: "drop k xs = map (\<lambda>i. xs ! i) [k ..< length xs]"
proof -
  have "drop k (map (\<lambda>i. xs ! i) [0 ..< length xs]) = map (\<lambda>i. xs ! i) [k ..< length xs]"
    by (simp only: drop_map drop_upt) simp
  then show ?thesis by (simp only: map_nth)
qed

lemma islice_window:
  "islice xs (nat (start_index (int (length xs)) dp)) (nat (int (length xs)))
     = map (\<lambda>i. xs ! i) [nat (max 0 (int (length xs) - dp)) ..< length xs]"
proof -
  let ?k = "nat (max 0 (int (length xs) - dp))"
  have "islice xs ?k (length xs) = take (length xs - ?k) (drop ?k xs)"
    by (simp add: islice_def)
  also have "\<dots> = drop ?k xs" by simp
  also have "\<dots> = map (\<lambda>i. xs ! i) [?k ..< length xs]" by (rule drop_as_nths)
  finally show ?thesis by (simp add: start_index_def)
qed

lemma islice_full:
  "int (length xs) \<le> dp \<Longrightarrow>
   islice xs (nat (start_index (int (length xs)) dp)) (nat (int (length xs))) = xs"
  by (simp add: islice_def start_index_def)

lemma islice_empty:
  "dp \<le> 0 \<Longrightarrow>
   islice xs (nat (start_index (int (length xs)) dp)) (nat (int (length xs))) = []"
  by (simp add: islice_def start_index_def)

lemma islice_length:
  "length (islice xs (nat (start_index (int (length xs)) dp)) (nat (int (length xs))))
     = nat (min (int (length xs)) (max 0 dp))"
  by (simp add: islice_def start_index_def)

text \<open>The start, the end and the slice, as index arithmetic on any buffer.\<close>

lemma window_indices:
  "start_index (int (length xs)) dp = max 0 (int (length xs) - dp) \<and>
   0 \<le> start_index (int (length xs)) dp \<and>
   islice xs (nat (start_index (int (length xs)) dp)) (nat (int (length xs)))
     = map (\<lambda>i. xs ! i) [nat (max 0 (int (length xs) - dp)) ..< length xs] \<and>
   (int (length xs) < dp \<longrightarrow>
      islice xs (nat (start_index (int (length xs)) dp)) (nat (int (length xs))) = xs) \<and>
   (dp \<le> 0 \<longrightarrow>
      islice xs (nat (start_index (int (length xs)) dp)) (nat (int (length xs))) = []) \<and>
   start_index 30 50 = 0 \<and> start_index 500 50 = 450"
  using islice_window [of xs dp] islice_full [of xs dp] islice_empty [of dp xs]
  by (simp add: start_index_def)

section \<open>The parallel buffers\<close>

lemma channels_parallelD:
  assumes "channels_parallel s"
  shows "\<exists>b1 b2 b3 b4. sensor_data s = [(''s1'', b1), (''s2'', b2), (''s3'', b3), (''s4'', b4)]
           \<and> length b1 = length (time_data s) \<and> length b2 = length (time_data s)
           \<and> length b3 = length (time_data s) \<and> length b4 = length (time_data s)"
  using assms unfolding channels_parallel_def
  by (auto simp: map_eq_Cons_conv)

lemma channels_parallel_initial: "channels_parallel initial_buffers"
  by (simp add: channels_parallel_def initial_buffers_def)

lemma channels_parallel_generate:
  assumes "channels_parallel s"
  shows "channels_parallel (generate_new_data now uniform s)"
proof -
  from channels_parallelD [OF assms] obtain b1 b2 b3 b4 where
    "sensor_data s = [(''s1'', b1), (''s2'', b2), (''s3'', b3), (''s4'', b4)]"
    "length b1 = length (time_data s)" "length b2 = length (time_data s)"
    "length b3 = length (time_data s)" "length b4 = length (time_data s)"
    by blast
  then show ?thesis
    by (simp add: channels_parallel_def generate_new_data_def deque_append_length)
qed

text \<open>What each tick callback does to the buffers.\<close>

lemma after_update_graphs_eq:
  "after_update_graphs c s =
     (if call_is_running c then generate_new_data (call_now c) (call_uniform c) s else s)"
  by (simp add: after_update_graphs_def update_graphs_def Let_def)

lemma after_call_2_eq:
  "after_call_2 c s =
     (case c of
        Dashboard g \<Rightarrow>
          if call_is_running g then generate_new_data (call_now g) (call_uniform g) s else s
      | Detail d \<Rightarrow> s)"
  by (cases c) (simp_all add: update_dashboard_graphs_def update_detail_graph_live_def Let_def)

lemma channels_parallel_foldl_1:
  "channels_parallel s \<Longrightarrow> channels_parallel (foldl (\<lambda>s c. after_update_graphs c s) s cs)"
  by (induction cs arbitrary: s) (simp_all add: after_update_graphs_eq channels_parallel_generate)

lemma channels_parallel_foldl_2:
  "channels_parallel s \<Longrightarrow> channels_parallel (foldl (\<lambda>s c. after_call_2 c s) s cs)"
  by (induction cs arbitrary: s)
     (simp_all add: after_call_2_eq channels_parallel_generate split: call_2.splits)

lemma channels_parallel_history_1: "channels_parallel (history_1 cs)"
  by (simp add: history_1_def channels_parallel_foldl_1 channels_parallel_initial)

lemma channels_parallel_history_2: "channels_parallel (history_2 cs)"
  by (simp add: history_2_def channels_parallel_foldl_2 channels_parallel_initial)

text \<open>
  Claim C4. After any sequence of ticks from start-up, in the single-page program
  (\<open>cs1\<close>) and in the multi-page program (\<open>cs2\<close>), whatever the capture state, settings
  and zoom payloads of each tick were and whether or not a tick raised, the channel
  dictionary holds the four channels and each channel buffer is as long as the timestamp
  buffer. One data-generation step appends one timestamp and, to every channel, one
  value.
\<close>

theorem parallel_buffers:
  "map (\<lambda>(name, buffer). (name, length buffer)) (sensor_data (history_1 cs1))
     = [(''s1'', length (time_data (history_1 cs1))), (''s2'', length (time_data (history_1 cs1))),
        (''s3'', length (time_data (history_1 cs1))), (''s4'', length (time_data (history_1 cs1)))] \<and>
   map (\<lambda>(name, buffer). (name, length buffer)) (sensor_data (history_2 cs2))
     = [(''s1'', length (time_data (history_2 cs2))), (''s2'', length (time_data (history_2 cs2))),
        (''s3'', length (time_data (history_2 cs2))), (''s4'', length (time_data (history_2 cs2)))] \<and>
   time_data (generate_new_data now uniform s) = deque_append MAX_BUFFER_SIZE (time_data s) now \<and>
   map (\<lambda>(name, buffer). (name, length buffer)) (sensor_data (generate_new_data now uniform s))
     = map (\<lambda>(name, buffer). (name, length (deque_append MAX_BUFFER_SIZE buffer 0)))
         (sensor_data s)"
proof -
  have "map (\<lambda>(name, buffer). (name, length buffer)) (sensor_data (generate_new_data now uniform s))
          = map (\<lambda>(name, buffer). (name, length (deque_append MAX_BUFFER_SIZE buffer (0::real))))
              (sensor_data s)"
    by (simp add: generate_new_data_def deque_append_length split_def comp_def)
  moreover have "time_data (generate_new_data now uniform s)
                   = deque_append MAX_BUFFER_SIZE (time_data s) now"
    by (simp add: generate_new_data_def)
  ultimately show ?thesis
    using channels_parallel_history_1 [of cs1] channels_parallel_history_2 [of cs2]
    by (simp add: channels_parallel_def)
qed

section \<open>The graph updates\<close>

lemma sensor_name_simps:
  "sensor_name 1 = ''s1''" "sensor_name 2 = ''s2''" "sensor_name 3 = ''s3''"
  "sensor_name 4 = ''s4''"
  by (simp_all add: sensor_name_def str_int_def str_nat.simps digit_char_def)

lemma str_int_simps:
  "str_int 1 = ''1''" "str_int 2 = ''2''" "str_int 3 = ''3''" "str_int 4 = ''4''"
  by (simp_all add: str_int_def str_nat.simps digit_char_def)

lemma apply_relayout_1_running: "apply_relayout_1 True r fig = Inr fig"
  by (simp add: apply_relayout_1_def)

lemma apply_relayout_2_running: "apply_relayout_2 True r fig = Inr fig"
  by (simp add: apply_relayout_2_def)

lemma range_pair_present:
  "contains k0 d \<Longrightarrow> contains k1 d \<Longrightarrow>
   \<exists>lo hi. map_of d k0 = Some lo \<and> map_of d k1 = Some hi \<and> range_pair d k0 k1 = Inr (lo, hi)"
  by (auto simp: contains_def range_pair_def getitem_def split: option.splits)

text \<open>
  The overlay of the single-page file never raises, and it decides each axis on its own
  pair of keys.
\<close>

lemma apply_relayout_1_paused:
  "apply_relayout_1 False (Some d) fig =
     Inr (fig\<lparr>xaxis_range :=
                (if d \<noteq> [] \<and> contains ''xaxis.range[0]'' d \<and> contains ''xaxis.range[1]'' d
                 then Some (the (map_of d ''xaxis.range[0]''), the (map_of d ''xaxis.range[1]''))
                 else xaxis_range fig),
              yaxis_range :=
                (if d \<noteq> [] \<and> contains ''yaxis.range[0]'' d \<and> contains ''yaxis.range[1]'' d
                 then Some (the (map_of d ''yaxis.range[0]''), the (map_of d ''yaxis.range[1]''))
                 else yaxis_range fig)\<rparr>)"
  by (auto simp: apply_relayout_1_def truthy_def contains_def range_pair_def getitem_def
      split: option.splits)

lemma collect_Inr:
  "(\<And>a. a \<in> set as \<Longrightarrow> f a = Inr (g a)) \<Longrightarrow> collect f as = Inr (map g as)"
  by (induction as) simp_all

lemma apply_relayout_1_total: "\<exists>fig'. apply_relayout_1 run r fig = Inr fig'"
  by (cases r; cases run) (simp_all add: apply_relayout_1_paused apply_relayout_1_running,
      simp add: apply_relayout_1_def truthy_def)

lemma sensor_figure_1_eq:
  assumes "map_of sensor_slices (sensor_name i) = Some y"
  shows "sensor_figure_1 run x_slice sensor_slices mode marker_dict line_shape (i, r) =
           apply_relayout_1 run r
             (if x_slice \<noteq> [] then
                add_trace \<lparr>trace_x = x_slice, trace_y = y, trace_mode = mode,
                           trace_marker = marker_dict, trace_line_shape = line_shape\<rparr>
                  (create_base_figure_1 (''Sensor '' @ str_int i))
              else create_base_figure_1 (''Sensor '' @ str_int i))"
  using assms by (simp add: sensor_figure_1_def Let_def getitem_def)

lemma sensor_figure_2_eq:
  assumes "map_of sensors (sensor_name i) = Some buffer"
  shows "sensor_figure_2 run x_slice sensors k n mode marker_dict shape (i, r) =
           apply_relayout_2 run r
             (if x_slice \<noteq> [] then
                add_trace \<lparr>trace_x = x_slice, trace_y = islice buffer k n, trace_mode = mode,
                           trace_marker = marker_dict, trace_line_shape = shape\<rparr>
                  (create_base_figure_2 (''Sensor '' @ str_int i) (Some 360))
              else create_base_figure_2 (''Sensor '' @ str_int i) (Some 360))"
  using assms by (simp add: sensor_figure_2_def Let_def getitem_def)

lemma four_channels_lookup:
  assumes "i \<in> {1, 2, 3, 4}"
  shows "\<exists>y. map_of [(''s1'', y1), (''s2'', y2), (''s3'', y3), (''s4'', y4)] (sensor_name i)
           = Some y"
  using assms by (auto simp: sensor_name_simps)

lemma sensor_figure_1_running:
  assumes "sensor_slices = [(''s1'', y1), (''s2'', y2), (''s3'', y3), (''s4'', y4)]"
    and "i \<in> {1, 2, 3, 4}"
  shows "\<exists>fig. sensor_figure_1 True x_slice sensor_slices mode marker_dict line_shape (i, r)
           = Inr fig \<and> xaxis_range fig = None \<and> yaxis_range fig = None"
proof -
  from four_channels_lookup [OF assms(2), of y1 y2 y3 y4] obtain y where
    "map_of sensor_slices (sensor_name i) = Some y"
    by (auto simp: assms(1))
  then show ?thesis
    by (simp add: sensor_figure_1_eq apply_relayout_1_running create_base_figure_1_def
        add_trace_def)
qed

lemma sensor_figure_2_running:
  assumes "sensors = [(''s1'', y1), (''s2'', y2), (''s3'', y3), (''s4'', y4)]"
    and "i \<in> {1, 2, 3, 4}"
  shows "\<exists>fig. sensor_figure_2 True x_slice sensors k n mode marker_dict shape (i, r)
           = Inr fig \<and> xaxis_range fig = None \<and> yaxis_range fig = None"
proof -
  from four_channels_lookup [OF assms(2), of y1 y2 y3 y4] obtain y where
    "map_of sensors (sensor_name i) = Some y"
    by (auto simp: assms(1))
  then show ?thesis
    by (simp add: sensor_figure_2_eq apply_relayout_2_running create_base_figure_2_def
        add_trace_def)
qed

lemma collect_four:
  assumes "\<And>i r. i \<in> {1, 2, 3, 4 :: int} \<Longrightarrow> \<exists>fig. f (i, r) = Inr fig \<and> P fig"
  shows "\<exists>f1 f2 f3 f4. collect f [(1, r1), (2, r2), (3, r3), (4, r4)] = Inr [f1, f2, f3, f4]
           \<and> P f1 \<and> P f2 \<and> P f3 \<and> P f4"
proof -
  obtain f1 where 1: "f (1, r1) = Inr f1" "P f1" using assms [of 1 r1] by auto
  obtain f2 where 2: "f (2, r2) = Inr f2" "P f2" using assms [of 2 r2] by auto
  obtain f3 where 3: "f (3, r3) = Inr f3" "P f3" using assms [of 3 r3] by auto
  obtain f4 where 4: "f (4, r4) = Inr f4" "P f4" using assms [of 4 r4] by auto
  show ?thesis using 1 2 3 4 by simp
qed

lemma update_graphs_running:
  assumes "channels_parallel s"
  shows "\<exists>f1 f2 f3 f4.
           fst (update_graphs now uniform True (Some st) r1 r2 r3 r4 s) = Inr [f1, f2, f3, f4]
           \<and> (xaxis_range f1 = None \<and> yaxis_range f1 = None)
           \<and> (xaxis_range f2 = None \<and> yaxis_range f2 = None)
           \<and> (xaxis_range f3 = None \<and> yaxis_range f3 = None)
           \<and> (xaxis_range f4 = None \<and> yaxis_range f4 = None)"
proof -
  have "channels_parallel (generate_new_data now uniform s)"
    using assms by (rule channels_parallel_generate)
  from channels_parallelD [OF this] obtain b1 b2 b3 b4 where
    sd: "sensor_data (generate_new_data now uniform s)
           = [(''s1'', b1), (''s2'', b2), (''s3'', b3), (''s4'', b4)]"
    by blast
  show ?thesis
    unfolding update_graphs_def Let_def
    apply (simp only: if_True fst_conv option.case sd list.map prod.case)
    apply (rule collect_four)
    apply (rule sensor_figure_1_running)
     apply (rule refl)
    apply assumption
    done
qed

lemma update_dashboard_graphs_running:
  assumes "channels_parallel s"
  shows "\<exists>f1 f2 f3 f4.
           fst (update_dashboard_graphs now uniform True settings r1 r2 r3 r4 s)
             = Inr [f1, f2, f3, f4]
           \<and> (xaxis_range f1 = None \<and> yaxis_range f1 = None)
           \<and> (xaxis_range f2 = None \<and> yaxis_range f2 = None)
           \<and> (xaxis_range f3 = None \<and> yaxis_range f3 = None)
           \<and> (xaxis_range f4 = None \<and> yaxis_range f4 = None)"
proof -
  have "channels_parallel (generate_new_data now uniform s)"
    using assms by (rule channels_parallel_generate)
  from channels_parallelD [OF this] obtain b1 b2 b3 b4 where
    sd: "sensor_data (generate_new_data now uniform s)
           = [(''s1'', b1), (''s2'', b2), (''s3'', b3), (''s4'', b4)]"
    by blast
  show ?thesis
    unfolding update_dashboard_graphs_def Let_def
    apply (simp only: if_True fst_conv sd)
    apply (rule collect_four)
    apply (rule sensor_figure_2_running)
     apply (rule refl)
    apply assumption
    done
qed

text \<open>
  Claim C8. While capture is running, the graph update of either file, called in any
  state that a sequence of ticks can reach and with any four captured zoom payloads,
  returns four figures, and none of them carries an x-axis or a y-axis range.
\<close>

theorem overlay_dropped_while_running:
  "(\<exists>f1 f2 f3 f4.
      fst (update_graphs now uniform True (Some st) r1 r2 r3 r4 (history_1 cs1))
        = Inr [f1, f2, f3, f4] \<and>
      map xaxis_range [f1, f2, f3, f4] = [None, None, None, None] \<and>
      map yaxis_range [f1, f2, f3, f4] = [None, None, None, None]) \<and>
   (\<exists>f1 f2 f3 f4.
      fst (update_dashboard_graphs now uniform True settings r1 r2 r3 r4 (history_2 cs2))
        = Inr [f1, f2, f3, f4] \<and>
      map xaxis_range [f1, f2, f3, f4] = [None, None, None, None] \<and>
      map yaxis_range [f1, f2, f3, f4] = [None, None, None, None])"
  using update_graphs_running [OF channels_parallel_history_1, of now uniform st r1 r2 r3 r4 cs1]
    update_dashboard_graphs_running [OF channels_parallel_history_2,
      of now uniform settings r1 r2 r3 r4 cs2]
  by simp blast

section \<open>Export\<close>

lemma export_parallel:
  assumes "sensor_data s = [(''s1'', b1), (''s2'', b2), (''s3'', b3), (''s4'', b4)]"
    and "length b1 = length (time_data s)" and "length b2 = length (time_data s)"
    and "length b3 = length (time_data s)" and "length b4 = length (time_data s)"
  shows "export_data_as_csv strftime now s =
           Inr (\<lparr>df_columns = [''timestamp'', ''s1'', ''s2'', ''s3'', ''s4''],
                 df_rows = map (\<lambda>i. [Timestamp (time_data s ! i), Reading (b1 ! i),
                                       Reading (b2 ! i), Reading (b3 ! i), Reading (b4 ! i)])
                             [0 ..< length (time_data s)]\<rparr>,
                ''sensor_data_'' @ strftime now @ ''.csv'')"
  using assms
  by (simp add: export_data_as_csv_def dict_update_def DataFrame_def Let_def cong: map_cong)

text \<open>
  Claim C10. In every state that a sequence of ticks can reach, in either program, the
  export builds a table whose header is timestamp, s1, s2, s3, s4 and whose rows are, in
  buffer order from the oldest sample on, the timestamp and the four channel values of
  each buffered sample: one row per sample. Before any tick the table has that header
  and no rows.
\<close>

theorem export_table:
  "(\<exists>b1 b2 b3 b4.
      sensor_data (history_1 cs1) = [(''s1'', b1), (''s2'', b2), (''s3'', b3), (''s4'', b4)] \<and>
      export_data_as_csv strftime now (history_1 cs1) =
        Inr (\<lparr>df_columns = [''timestamp'', ''s1'', ''s2'', ''s3'', ''s4''],
              df_rows = map (\<lambda>i. [Timestamp (time_data (history_1 cs1) ! i), Reading (b1 ! i),
                                    Reading (b2 ! i), Reading (b3 ! i), Reading (b4 ! i)])
                          [0 ..< length (time_data (history_1 cs1))]\<rparr>,
             ''sensor_data_'' @ strftime now @ ''.csv'')) \<and>
   (\<exists>b1 b2 b3 b4.
      sensor_data (history_2 cs2) = [(''s1'', b1), (''s2'', b2), (''s3'', b3), (''s4'', b4)] \<and>
      export_data_as_csv strftime now (history_2 cs2) =
        Inr (\<lparr>df_columns = [''timestamp'', ''s1'', ''s2'', ''s3'', ''s4''],
              df_rows = map (\<lambda>i. [Timestamp (time_data (history_2 cs2) ! i), Reading (b1 ! i),
                                    Reading (b2 ! i), Reading (b3 ! i), Reading (b4 ! i)])
                          [0 ..< length (time_data (history_2 cs2))]\<rparr>,
             ''sensor_data_'' @ strftime now @ ''.csv'')) \<and>
   export_data_as_csv strftime now initial_buffers =
     Inr (\<lparr>df_columns = [''timestamp'', ''s1'', ''s2'', ''s3'', ''s4''], df_rows = []\<rparr>,
          ''sensor_data_'' @ strftime now @ ''.csv'')"
proof -
  have a: "\<exists>b1 b2 b3 b4.
      sensor_data s = [(''s1'', b1), (''s2'', b2), (''s3'', b3), (''s4'', b4)] \<and>
      export_data_as_csv strftime now s =
        Inr (\<lparr>df_columns = [''timestamp'', ''s1'', ''s2'', ''s3'', ''s4''],
              df_rows = map (\<lambda>i. [Timestamp (time_data s ! i), Reading (b1 ! i),
                                    Reading (b2 ! i), Reading (b3 ! i), Reading (b4 ! i)])
                          [0 ..< length (time_data s)]\<rparr>,
             ''sensor_data_'' @ strftime now @ ''.csv'')"
    if "channels_parallel s" for s :: "'a buffers"
  proof -
    from channels_parallelD [OF that] obtain b1 b2 b3 b4 where
      sd: "sensor_data s = [(''s1'', b1), (''s2'', b2), (''s3'', b3), (''s4'', b4)]"
      and len: "length b1 = length (time_data s)" "length b2 = length (time_data s)"
        "length b3 = length (time_data s)" "length b4 = length (time_data s)"
      by blast
    show ?thesis
      using sd export_parallel [OF sd len, of strftime now] by blast
  qed
  have c: "export_data_as_csv strftime now initial_buffers =
     Inr (\<lparr>df_columns = [''timestamp'', ''s1'', ''s2'', ''s3'', ''s4''], df_rows = []\<rparr>,
          ''sensor_data_'' @ strftime now @ ''.csv'')"
    by (simp add: export_data_as_csv_def dict_update_def DataFrame_def Let_def
        initial_buffers_def)
  show ?thesis
    using a [OF channels_parallel_history_1 [of cs1]] a [OF channels_parallel_history_2 [of cs2]] c
    by blast
qed

section \<open>The detail page\<close>

lemma update_detail_graph_live_buffers:
  "snd (update_detail_graph_live parse_index triggered_id settings pathname is_running s) = s"
  by (simp add: update_detail_graph_live_def)

lemma detail_paths_parallel:
  assumes "map_of (sensor_data s) (sensor_name idx) = Some buffer"
    and "length buffer = length (time_data s)"
    and "parse_index p = Some idx"
  shows "fst (update_detail_graph_live parse_index triggered_id (Some st) (Some p) is_running s) =
       (if triggered_id = Some ID_INTERVAL \<and> is_running \<and> time_data s \<noteq> [] then
          Inr (no_update,
               Update \<lparr>ext_x = [[last (time_data s)]], ext_y = [[last buffer]], ext_traces = [0],
                       ext_max_points =
                         get_default (st_points st) DEFAULT_DISPLAY_POINTS_DETAIL\<rparr>)
        else
          Inr (Update
                 (let k = nat (start_index (int (length (time_data s)))
                                 (get_default (st_points st) DEFAULT_DISPLAY_POINTS_DETAIL));
                      n = length (time_data s);
                      x_slice = islice (time_data s) k n
                  in if x_slice \<noteq> [] then
                       add_trace
                         \<lparr>trace_x = x_slice, trace_y = islice buffer k n,
                          trace_mode =
                            (if st_markers st = Some ''on'' then ''lines+markers''
                             else ''lines''),
                          trace_marker =
                            (if st_markers st = Some ''on'' then Some (get_default (st_size st) 6)
                             else None),
                          trace_line_shape = get_default (st_shape st) ''spline''\<rparr>
                         (create_base_figure_2 [] None)
                     else create_base_figure_2 [] None),
               no_update))"
proof -
  have ne: "time_data s \<noteq> [] \<Longrightarrow> buffer \<noteq> []"
    using assms(2) by auto
  show ?thesis
    using assms(1,3) ne
    by (simp add: update_detail_graph_live_def Let_def getitem_def last_item_def or_empty_def)
qed

text \<open>
  Claim C6. On a detail page (the path parses to a sensor index from 1 to 4), in any
  state that a sequence of ticks can reach and with a settings dictionary \<open>st\<close>: when the
  update was triggered by the interval, capture is running and the timestamp buffer is
  not empty, the figure output is \<open>no_update\<close> and the \<open>extendData\<close> output appends
  the newest timestamp and the newest value of that channel to trace 0, keeping at most
  the configured number of points (500 when the dictionary has none); in every other
  case the \<open>extendData\<close> output is \<open>no_update\<close> and the figure output is a figure
  drawn anew from the current window. Exactly one of the two outputs is written.
\<close>

theorem detail_update_paths:
  assumes "parse_index p = Some idx" and "idx \<in> {1, 2, 3, 4}"
  shows "\<exists>buffer.
       map_of (sensor_data (history_2 cs)) (sensor_name idx) = Some buffer \<and>
       length buffer = length (time_data (history_2 cs)) \<and>
       fst (update_detail_graph_live parse_index triggered_id (Some st) (Some p) is_running
              (history_2 cs)) =
       (if triggered_id = Some ID_INTERVAL \<and> is_running \<and> time_data (history_2 cs) \<noteq> [] then
          Inr (no_update,
               Update \<lparr>ext_x = [[last (time_data (history_2 cs))]], ext_y = [[last buffer]],
                       ext_traces = [0],
                       ext_max_points =
                         get_default (st_points st) DEFAULT_DISPLAY_POINTS_DETAIL\<rparr>)
        else
          Inr (Update
                 (let k = nat (start_index (int (length (time_data (history_2 cs))))
                                 (get_default (st_points st) DEFAULT_DISPLAY_POINTS_DETAIL));
                      n = length (time_data (history_2 cs));
                      x_slice = islice (time_data (history_2 cs)) k n
                  in if x_slice \<noteq> [] then
                       add_trace
                         \<lparr>trace_x = x_slice, trace_y = islice buffer k n,
                          trace_mode =
                            (if st_markers st = Some ''on'' then ''lines+markers''
                             else ''lines''),
                          trace_marker =
                            (if st_markers st = Some ''on'' then Some (get_default (st_size st) 6)
                             else None),
                          trace_line_shape = get_default (st_shape st) ''spline''\<rparr>
                         (create_base_figure_2 [] None)
                     else create_base_figure_2 [] None),
               no_update))"
proof -
  let ?s = "history_2 cs"
  from channels_parallelD [OF channels_parallel_history_2 [of cs]] obtain b1 b2 b3 b4 where
    sd: "sensor_data ?s = [(''s1'', b1), (''s2'', b2), (''s3'', b3), (''s4'', b4)]"
    and len: "length b1 = length (time_data ?s)" "length b2 = length (time_data ?s)"
      "length b3 = length (time_data ?s)" "length b4 = length (time_data ?s)"
    by blast
  from assms(2) sd len obtain buffer where
    b: "map_of (sensor_data ?s) (sensor_name idx) = Some buffer"
      "length buffer = length (time_data ?s)"
    by (auto simp: sensor_name_simps)
  show ?thesis
    using b detail_paths_parallel [where parse_index = parse_index and p = p, OF b assms(1),
        of triggered_id st is_running]
    by blast
qed

theorem detail_update_paths_witness:
  "(\<lambda>p. if p = ''/sensor-1'' then Some 1 else None) ''/sensor-1'' = Some (1::int) \<and>
   (1::int) \<in> {1, 2, 3, 4} \<and>
   fst (update_detail_graph_live (\<lambda>p. if p = ''/sensor-1'' then Some 1 else None)
          (Some ID_INTERVAL)
          (Some \<lparr>st_points = None, st_shape = None, st_markers = None, st_size = None\<rparr>)
          (Some ''/sensor-1'') True
          (history_2 [Dashboard \<lparr>call_now = 0::nat, call_uniform = (\<lambda>name. 0),
                                  call_is_running = True, call_settings = None,
                                  call_relayout1 = None :: int dict option,
                                  call_relayout2 = None, call_relayout3 = None,
                                  call_relayout4 = None\<rparr>]))
     = Inr (no_update :: (nat, int) figure callback_output,
            Update \<lparr>ext_x = [[0]], ext_y = [[50]], ext_traces = [0], ext_max_points = 500\<rparr>)"
  using detail_update_paths [of "\<lambda>p. if p = ''/sensor-1'' then Some 1 else None" "''/sensor-1''" 1
      "[Dashboard \<lparr>call_now = 0::nat, call_uniform = (\<lambda>name. 0),
                                  call_is_running = True, call_settings = None,
                                  call_relayout1 = None :: int dict option,
                                  call_relayout2 = None, call_relayout3 = None,
                                  call_relayout4 = None\<rparr>]"
      "Some ID_INTERVAL"
      "\<lparr>st_points = None, st_shape = None, st_markers = None, st_size = None\<rparr>" True]
  by (simp add: history_2_def after_call_2_eq generate_new_data_def initial_buffers_def
      deque_append_def MAX_BUFFER_SIZE_def new_val_def last_val_def get_default_def
      DEFAULT_DISPLAY_POINTS_DETAIL_def sensor_name_simps)

section \<open>Zoom payloads while paused\<close>

text \<open>The single-page graph update returns four figures for every payload.\<close>

lemma collect_four_total:
  assumes "\<And>i r. i \<in> {1, 2, 3, 4 :: int} \<Longrightarrow> \<exists>fig. f (i, r) = Inr fig"
  shows "\<exists>f1 f2 f3 f4. collect f [(1, r1), (2, r2), (3, r3), (4, r4)] = Inr [f1, f2, f3, f4]"
proof -
  obtain f1 where 1: "f (1, r1) = Inr f1" using assms [of 1 r1] by auto
  obtain f2 where 2: "f (2, r2) = Inr f2" using assms [of 2 r2] by auto
  obtain f3 where 3: "f (3, r3) = Inr f3" using assms [of 3 r3] by auto
  obtain f4 where 4: "f (4, r4) = Inr f4" using assms [of 4 r4] by auto
  show ?thesis using 1 2 3 4 by simp
qed

lemma sensor_figure_1_total:
  assumes "sensor_slices = [(''s1'', y1), (''s2'', y2), (''s3'', y3), (''s4'', y4)]"
    and "i \<in> {1, 2, 3, 4}"
  shows "\<exists>fig. sensor_figure_1 run x_slice sensor_slices mode marker_dict line_shape (i, r)
           = Inr fig"
proof -
  from four_channels_lookup [OF assms(2), of y1 y2 y3 y4] obtain y where
    "map_of sensor_slices (sensor_name i) = Some y"
    by (auto simp: assms(1))
  then show ?thesis
    by (simp add: sensor_figure_1_eq apply_relayout_1_total)
qed

lemma update_graphs_total:
  assumes "channels_parallel s"
  shows "\<exists>f1 f2 f3 f4.
           fst (update_graphs now uniform is_running (Some st) r1 r2 r3 r4 s)
             = Inr [f1, f2, f3, f4]"
proof (cases is_running)
  case True
  then show ?thesis
    using update_graphs_running [OF assms, of now uniform st r1 r2 r3 r4] by auto
next
  case False
  from channels_parallelD [OF assms] obtain b1 b2 b3 b4 where
    sd: "sensor_data s = [(''s1'', b1), (''s2'', b2), (''s3'', b3), (''s4'', b4)]"
    by blast
  have paused: "is_running = False" using False by simp
  show ?thesis
    unfolding update_graphs_def Let_def paused
    apply (simp only: if_False fst_conv option.case sd list.map prod.case)
    apply (rule collect_four_total)
    apply (rule sensor_figure_1_total)
     apply (rule refl)
    apply assumption
    done
qed

lemmas eval_defs =
  update_dashboard_graphs_def update_graphs_def update_detail_graph_live_def
  Let_def generate_new_data_def initial_buffers_def deque_append_def MAX_BUFFER_SIZE_def
  new_val_def last_val_def or_empty_def get_default_def DEFAULT_DISPLAY_POINTS_def
  DEFAULT_DISPLAY_POINTS_DASH_def DEFAULT_DISPLAY_POINTS_DETAIL_def start_index_def islice_def
  sensor_figure_1_def sensor_figure_2_def getitem_def sensor_name_simps str_int_simps
  create_base_figure_1_def create_base_figure_2_def add_trace_def apply_relayout_1_def
  apply_relayout_2_def truthy_def contains_def range_pair_def last_item_def ID_INTERVAL_def

text \<open>
  Claim C1, evaluated. The buffers hold one sample and capture is paused. Chart 1 of the
  multi-page dashboard has captured a payload with both x-axis bounds and no y-axis
  bound: the figure comes back without an x-axis range. With both y-axis bounds and no
  x-axis bound it comes back without a y-axis range. The single-page graph update, on
  the same inputs, sets the x-axis range from the first payload and the y-axis range from
  the second.
\<close>

theorem single_axis_payload_dropped_by_multi_page_dashboard:
  "map_sum id (map (\<lambda>fig. (xaxis_range fig, yaxis_range fig)))
     (fst (update_dashboard_graphs (1::nat) (\<lambda>name. 0) False None
             (Some [(''xaxis.range[0]'', 10::int), (''xaxis.range[1]'', 20)]) None None None
             (generate_new_data 0 (\<lambda>name. 0) initial_buffers)))
     = Inr [(None, None), (None, None), (None, None), (None, None)] \<and>
   map_sum id (map (\<lambda>fig. (xaxis_range fig, yaxis_range fig)))
     (fst (update_dashboard_graphs (1::nat) (\<lambda>name. 0) False None
             (Some [(''yaxis.range[0]'', 40::int), (''yaxis.range[1]'', 60)]) None None None
             (generate_new_data 0 (\<lambda>name. 0) initial_buffers)))
     = Inr [(None, None), (None, None), (None, None), (None, None)] \<and>
   map_sum id (map (\<lambda>fig. (xaxis_range fig, yaxis_range fig)))
     (fst (update_graphs (1::nat) (\<lambda>name. 0) False
             (Some \<lparr>st_points = None, st_shape = None, st_markers = None, st_size = None\<rparr>)
             (Some [(''xaxis.range[0]'', 10::int), (''xaxis.range[1]'', 20)]) None None None
             (generate_new_data 0 (\<lambda>name. 0) initial_buffers)))
     = Inr [(Some (10, 20), None), (None, None), (None, None), (None, None)] \<and>
   map_sum id (map (\<lambda>fig. (xaxis_range fig, yaxis_range fig)))
     (fst (update_graphs (1::nat) (\<lambda>name. 0) False
             (Some \<lparr>st_points = None, st_shape = None, st_markers = None, st_size = None\<rparr>)
             (Some [(''yaxis.range[0]'', 40::int), (''yaxis.range[1]'', 60)]) None None None
             (generate_new_data 0 (\<lambda>name. 0) initial_buffers)))
     = Inr [(None, Some (40, 60)), (None, None), (None, None), (None, None)]"
  by (simp add: eval_defs)

text \<open>
  Claim C2, evaluated. Same state, capture paused. Chart 1 of the multi-page dashboard
  has captured a payload with the lower bound of each axis and no upper bound: the
  graph update raises \<^verbatim>\<open>KeyError('xaxis.range[1]')\<close>. The single-page graph update, on
  the same inputs, returns its four figures with no range set.
\<close>

theorem partial_payload_raises_in_multi_page_dashboard:
  "(fst (update_dashboard_graphs (1::nat) (\<lambda>name. 0) False None
           (Some [(''xaxis.range[0]'', 10::int), (''yaxis.range[0]'', 40)]) None None None
           (generate_new_data 0 (\<lambda>name. 0) initial_buffers))
      :: error + (nat, int) figure list)
     = Inl (KeyError ''xaxis.range[1]'') \<and>
   map_sum id (map (\<lambda>fig. (xaxis_range fig, yaxis_range fig)))
     (fst (update_graphs (1::nat) (\<lambda>name. 0) False
             (Some \<lparr>st_points = None, st_shape = None, st_markers = None, st_size = None\<rparr>)
             (Some [(''xaxis.range[0]'', 10::int), (''yaxis.range[0]'', 40)]) None None None
             (generate_new_data 0 (\<lambda>name. 0) initial_buffers)))
     = Inr [(None, None), (None, None), (None, None), (None, None)]"
  by (simp add: eval_defs)

text \<open>
  Claim C5, evaluated. The buffers hold one sample, capture is running, and the interval
  fires on the detail page of sensor 1: \<open>update_detail_graph_live\<close> returns the buffers
  as they were, still with one sample, and its \<open>extendData\<close> output sends the sample
  that was already there.
\<close>

theorem detail_tick_while_running_appends_nothing:
  "update_detail_graph_live (\<lambda>p. if p = ''/sensor-1'' then Some 1 else None) (Some ID_INTERVAL)
      (Some \<lparr>st_points = None, st_shape = None, st_markers = None, st_size = None\<rparr>)
      (Some ''/sensor-1'') True (generate_new_data (0::nat) (\<lambda>name. 0) initial_buffers)
    = (Inr (no_update :: (nat, int) figure callback_output,
            Update \<lparr>ext_x = [[0]], ext_y = [[50]], ext_traces = [0], ext_max_points = 500\<rparr>),
       \<lparr>time_data = [0],
        sensor_data = [(''s1'', [50]), (''s2'', [50]), (''s3'', [50]), (''s4'', [50])]\<rparr>) \<and>
   generate_new_data (0::nat) (\<lambda>name. 0) initial_buffers
    = \<lparr>time_data = [0],
        sensor_data = [(''s1'', [50]), (''s2'', [50]), (''s3'', [50]), (''s4'', [50])]\<rparr>"
  by (simp add: eval_defs)

section \<open>The window of the graph updates\<close>



















end
